theory Spec2Isabelle
  imports Main "HOL-Library.AList"
begin

section \<open>The todo service of \<open>examples/peewee_example.py\<close>\<close>

text \<open>
  The example is a Flask application over two peewee tables, \<open>User\<close> and \<open>Todo\<close>, with
  marshmallow schemas between the JSON wire format and the rows. A request handler is
  modelled as a function from the store (the two tables) and the request's inputs to a
  result and the store afterwards. The result is \<open>Inr\<close> of a response when the handler
  returns one, and \<open>Inl\<close> of an exception when an exception leaves the handler, which is
  what the HTTP layer sees as an unhandled fault.

  Strings are lists of \<open>char\<close>, read as code points below 256. Timestamps are the values
  the clock returns (\<open>datetime.now()\<close>, \<open>datetime.utcnow()\<close>); the clock reading is an
  input of the handler that reads it. The \<open>pk\<close> of a route is a natural number, as the
  \<open><int:pk>\<close> converter delivers it.
\<close>

subsection \<open>JSON values, responses, exceptions\<close>

type_synonym timestamp = nat

text \<open>\<open>JTime t\<close> stands for the ISO text marshmallow's \<open>DateTime\<close> field writes for \<open>t\<close>.\<close>

datatype json =
    JNull
  | JBool bool
  | JInt int
  | JStr string
  | JTime timestamp
  | JList "json list"
  | JObj "(string \<times> json) list"

text \<open>
  The exceptions the example can meet: marshmallow's \<open>ValidationError\<close> with its
  \<open>messages\<close> (field name to list of messages), peewee's \<open>DoesNotExist\<close> and
  \<open>IntegrityError\<close>, and Python's \<open>KeyError\<close>, \<open>AttributeError\<close> and
  \<open>OverflowError\<close>.
\<close>

datatype exn =
    ValidationError "(string \<times> string list) list"
  | DoesNotExist
  | IntegrityError
  | KeyError string
  | AttributeError
  | OverflowError

record response =
  body :: json
  status :: nat
  headers :: "(string \<times> string) list"

text \<open>A handler that returns a dict alone answers with status 200 (Flask's default).\<close>

definition ok :: "json \<Rightarrow> response" where
  "ok b = \<lparr>body = b, status = 200, headers = []\<rparr>"

definition with_status :: "json \<Rightarrow> nat \<Rightarrow> response" where
  "with_status b st = \<lparr>body = b, status = st, headers = []\<rparr>"

subsection \<open>Models: the two tables\<close>

text \<open>
  \<open>uid\<close> and \<open>tid\<close> are the \<open>id\<close> columns peewee adds to each model; \<open>user_id\<close> is the
  column of the foreign key \<open>Todo.user\<close>.
\<close>

record User =
  uid :: nat
  email :: string
  password :: string
  joined_on :: timestamp

record Todo =
  tid :: nat
  content :: string
  is_done :: bool
  user_id :: nat
  posted_on :: timestamp

record store =
  users :: "User list"
  todos :: "Todo list"

text \<open>
  \<open>Model.get(expr)\<close> returns the first row that satisfies the expression and raises
  \<open>DoesNotExist\<close> when there is none; the example itself catches that exception around
  \<open>User.get\<close> in \<open>check_auth\<close> and \<open>register\<close> and around \<open>Todo.get\<close> in \<open>toggledone\<close>.
  The three functions below are the row the query selects; \<open>None\<close> is the empty
  selection, for which \<open>get\<close> raises \<open>DoesNotExist\<close>.
\<close>

definition User_get_email :: "store \<Rightarrow> string \<Rightarrow> User option" where
  "User_get_email s e = find (\<lambda>u. email u = e) (users s)"

definition User_get_id :: "store \<Rightarrow> nat \<Rightarrow> User option" where
  "User_get_id s k = find (\<lambda>u. uid u = k) (users s)"

definition Todo_get :: "store \<Rightarrow> nat \<Rightarrow> Todo option" where
  "Todo_get s pk = find (\<lambda>t. tid t = pk) (todos s)"

text \<open>
  \<open>Todo.get(Todo.id == pk)\<close> with the \<open>pk\<close> of the route. The \<open>int\<close> converter of the
  route takes any string of digits, and SQLite's integers are 64-bit signed: binding a
  \<open>pk\<close> of \<open>2 ^ 63\<close> or more makes the driver raise \<open>OverflowError\<close> before any row is
  looked up. Otherwise the call gives the selected row or raises \<open>DoesNotExist\<close>.
\<close>

definition Todo_get_pk :: "store \<Rightarrow> nat \<Rightarrow> exn + Todo" where
  "Todo_get_pk s pk =
     (if 2 ^ 63 \<le> pk then Inl OverflowError
      else case Todo_get s pk of None \<Rightarrow> Inl DoesNotExist | Some t \<Rightarrow> Inr t)"

text \<open>
  A new row gets the integer primary key SQLite assigns: one more than the largest
  key in the table, 1 in an empty table.
\<close>

definition next_id :: "nat list \<Rightarrow> nat" where
  "next_id ks = fold max ks 0 + 1"

text \<open>
  \<open>User.create\<close> inserts a row; the \<open>unique=True\<close> of \<open>email\<close> makes the insert raise
  \<open>IntegrityError\<close> when the address is already stored.
\<close>

definition User_create :: "store \<Rightarrow> string \<Rightarrow> timestamp \<Rightarrow> string \<Rightarrow> exn + (User \<times> store)" where
  "User_create s e j p =
     (if list_ex (\<lambda>u. email u = e) (users s) then Inl IntegrityError
      else let u = \<lparr>uid = next_id (map uid (users s)), email = e, password = p, joined_on = j\<rparr>
           in Inr (u, s\<lparr>users := users s @ [u]\<rparr>))"

text \<open>
  \<open>todo.update(is_done=status)\<close> followed by \<open>update_query.execute()\<close>: peewee's
  \<open>update\<close> is a method of the model class that builds an \<open>UPDATE\<close> query over the
  table from the keyword arguments. Called through an instance it is the same class
  method; the query built in \<open>toggledone\<close> has a \<open>SET\<close> clause and no \<open>where(...)\<close>,
  so executing it writes the value into every row of the table. The instance it was
  called through is not touched.
\<close>

definition Todo_update_is_done :: "store \<Rightarrow> bool \<Rightarrow> store" where
  "Todo_update_is_done s b = s\<lparr>todos := map (\<lambda>t. t\<lparr>is_done := b\<rparr>) (todos s)\<rparr>"

subsection \<open>Schemas: the dump path\<close>

text \<open>
  The schema classes and their hooks are in the example; marshmallow's \<open>Schema.dump\<close>
  and its field classes, which run them, are not among the source files. The spec's
  dump path has two steps: serialise the dump-eligible fields, then wrap the result in
  the envelope of the schema's \<open>wrap\<close> hook. The field lists and the \<open>exclude\<close> tuple
  are those of the class bodies; fields are written in declaration order.
\<close>

text \<open>
  Modelled from the spec: the serialisation step of marshmallow's \<open>Schema.dump\<close> for
  \<open>UserSchema\<close>. The dump-eligible fields of User are \<open>id\<close>, \<open>email\<close> and
  \<open>joined_on\<close>; the load-only \<open>password\<close> is never among them; the names in
  \<open>exclude\<close> are left out.
\<close>

definition UserSchema_serialize :: "string list \<Rightarrow> User \<Rightarrow> (string \<times> json) list" where
  "UserSchema_serialize exclude u =
     filter (\<lambda>(k, v). k \<notin> set exclude)
       [(''id'', JInt (int (uid u))),
        (''email'', JStr (email u)),
        (''joined_on'', JTime (joined_on u))]"

text \<open>\<open>UserSchema.wrap\<close> and \<open>TodoSchema.wrap\<close>, the \<open>post_dump\<close> hooks.\<close>

definition UserSchema_wrap :: "json \<Rightarrow> bool \<Rightarrow> json" where
  "UserSchema_wrap data many = (let key = (if many then ''users'' else ''user'') in JObj [(key, data)])"

definition TodoSchema_wrap :: "json \<Rightarrow> bool \<Rightarrow> json" where
  "TodoSchema_wrap data many = (let key = (if many then ''todos'' else ''todo'') in JObj [(key, data)])"

text \<open>
  Modelled from the spec: marshmallow's \<open>Schema.dump\<close> for one user, the serialisation
  and then the envelope of the hook.
\<close>

definition UserSchema_dump :: "User \<Rightarrow> json" where
  "UserSchema_dump u = UserSchema_wrap (JObj (UserSchema_serialize [] u)) False"

text \<open>
  Modelled from the spec: marshmallow's \<open>Nested\<close> field, for the field \<open>user\<close> of
  \<open>TodoSchema\<close> declared with \<open>UserSchema(exclude=("joined_on", "password"))\<close>. The
  nested value is the dump of the todo's user by that schema, so both steps of the dump
  path apply: the serialisation without \<open>joined_on\<close> and \<open>password\<close>, and then the
  envelope of \<open>UserSchema.wrap\<close>, the \<open>post_dump\<close> hook of the schema, for one item. The
  summary \<open>{id, email}\<close> therefore sits under the key \<open>user\<close> of the envelope, which
  sits under the key \<open>user\<close> of the todo.
\<close>

definition Todo_user_summary :: "User \<Rightarrow> json" where
  "Todo_user_summary u =
     UserSchema_wrap (JObj (UserSchema_serialize [''joined_on'', ''password''] u)) False"

text \<open>
  Modelled from the spec: the serialisation step of marshmallow's \<open>Schema.dump\<close> for
  \<open>TodoSchema\<close>. The dump-eligible fields of Todo are \<open>id\<close>, \<open>done\<close> (the attribute
  \<open>is_done\<close>), the nested user summary, \<open>content\<close> and \<open>posted_on\<close>.
\<close>

definition TodoSchema_serialize :: "Todo \<Rightarrow> User \<Rightarrow> (string \<times> json) list" where
  "TodoSchema_serialize t u =
     [(''id'', JInt (int (tid t))),
      (''done'', JBool (is_done t)),
      (''user'', Todo_user_summary u),
      (''content'', JStr (content t)),
      (''posted_on'', JTime (posted_on t))]"

text \<open>
  Modelled from the spec: marshmallow's \<open>Schema.dump\<close> for one todo, the serialisation
  and then the envelope of the hook.
\<close>

definition TodoSchema_dump :: "Todo \<Rightarrow> User \<Rightarrow> json" where
  "TodoSchema_dump t u = TodoSchema_wrap (JObj (TodoSchema_serialize t u)) False"

text \<open>
  Dumping a todo fetched from the table reads \<open>todo.user\<close>, which peewee resolves by
  fetching the user row of \<open>user_id\<close> (and raises \<open>DoesNotExist\<close> when there is none).
\<close>

definition dump_fetched :: "store \<Rightarrow> Todo \<Rightarrow> exn + response" where
  "dump_fetched s t =
     (case User_get_id s (user_id t) of
        None \<Rightarrow> Inl DoesNotExist
      | Some u \<Rightarrow> Inr (ok (TodoSchema_dump t u)))"

subsection \<open>Handlers: \<open>get_todo\<close> and \<open>toggledone\<close>\<close>

text \<open>
  \<open>get_todo\<close> calls \<open>Todo.get\<close> outside any \<open>try\<close>, so whatever it raises,
  \<open>DoesNotExist\<close> included, leaves the handler. When \<open>Todo.get\<close> returns, it returns a
  model instance, which is truthy, so the branch under \<open>if not todo\<close> is never taken.
\<close>

definition get_todo :: "store \<Rightarrow> nat \<Rightarrow> (exn + response) \<times> store" where
  "get_todo s pk =
     (case Todo_get_pk s pk of
        Inl x \<Rightarrow> (Inl x, s)
      | Inr todo \<Rightarrow> (dump_fetched s todo, s))"

text \<open>
  \<open>toggledone\<close> catches \<open>DoesNotExist\<close> and no other exception, computes \<open>status\<close> from
  the fetched instance, executes the update query and dumps the instance it fetched
  before the update.
\<close>

definition toggledone :: "store \<Rightarrow> nat \<Rightarrow> (exn + response) \<times> store" where
  "toggledone s pk =
     (case Todo_get_pk s pk of
        Inl DoesNotExist \<Rightarrow>
          (Inr (with_status (JObj [(''message'', JStr ''Todo could not be found'')]) 404), s)
      | Inl x \<Rightarrow> (Inl x, s)
      | Inr todo \<Rightarrow>
          (let status = \<not> is_done todo;
               s' = Todo_update_is_done s status
           in (dump_fetched s' todo, s')))"

subsection \<open>Strings: \<open>str.lower\<close> and \<open>str.strip\<close>\<close>

text \<open>
  On code points below 256, \<open>lower\<close> moves \<open>A\<close>-\<open>Z\<close> and the capital letters of
  Latin-1 (192 to 222, without the multiplication sign 215) up by 32 and leaves the
  rest; \<open>strip\<close> removes from both ends the characters for which \<open>isspace\<close> holds:
  9 to 13, 28 to 32, 133 and 160.
\<close>

definition lower_char :: "char \<Rightarrow> char" where
  "lower_char c =
     (let n = (of_char c :: nat)
      in if (65 \<le> n \<and> n \<le> 90) \<or> (192 \<le> n \<and> n \<le> 222 \<and> n \<noteq> 215)
         then char_of (n + 32) else c)"

definition lower :: "string \<Rightarrow> string" where
  "lower s = map lower_char s"

definition isspace :: "char \<Rightarrow> bool" where
  "isspace c =
     (let n = (of_char c :: nat)
      in (9 \<le> n \<and> n \<le> 13) \<or> (28 \<le> n \<and> n \<le> 32) \<or> n = 133 \<or> n = 160)"

definition strip :: "string \<Rightarrow> string" where
  "strip s = rev (dropWhile isspace (rev (dropWhile isspace s)))"

subsection \<open>Schemas: the load path\<close>

text \<open>
  A payload is the JSON object \<open>request.get_json()\<close> returns, a dict from field names
  to JSON values; \<open>map_of\<close> reads a key. \<open>UserSchema.process_input\<close>, the \<open>pre_load\<close>
  hook: \<open>data["email"]\<close> raises \<open>KeyError\<close> when the key is absent, and \<open>.lower()\<close>
  raises \<open>AttributeError\<close> on a value that is not a string.
\<close>

type_synonym payload = "(string \<times> json) list"

definition process_input :: "payload \<Rightarrow> exn + payload" where
  "process_input data =
     (case map_of data ''email'' of
        None \<Rightarrow> Inl (KeyError ''email'')
      | Some (JStr e) \<Rightarrow> Inr (AList.update ''email'' (JStr (strip (lower e))) data)
      | Some _ \<Rightarrow> Inl AttributeError)"

text \<open>
  marshmallow's \<open>Schema.load\<close>, its field classes and its validators are not among the
  source files. The spec's load path, after the pre-load hook, checks each field
  against its rule set, collects every violation into an error set keyed by field name,
  fails with \<open>ValidationError\<close> carrying all of them when there is one, and otherwise
  hands the validated data to the post-load hook. The rule sets are the field
  declarations of the class bodies: \<open>required=True\<close>, \<open>Str\<close>, \<open>validate.Email\<close>,
  \<open>validate.Length(min=6, max=36)\<close>, \<open>Boolean\<close> with \<open>missing=False\<close> and
  \<open>attribute="is_done"\<close>. \<open>content\<close> is declared with no validator, so the empty
  string passes. Dump-only fields (\<open>id\<close>, \<open>joined_on\<close>, \<open>user\<close>, \<open>posted_on\<close>) are
  not loaded. The spec's table has no row for a key of the payload that is not a load
  field of the schema; marshmallow's schemas raise on such keys unless they are declared
  otherwise, and the two schemas declare nothing, so each such key is a violation under
  its own name.

  The pattern \<open>validate.Email\<close> matches and the JSON values \<open>Boolean\<close> reads as true
  or false are marshmallow's: they are the parameters \<open>email_ok\<close> and \<open>bool_of\<close>. The
  message texts, except the one \<open>UserSchema\<close> passes to \<open>validate.Email\<close>, stand for
  marshmallow's. A field's result is \<open>Inl\<close> of its messages or \<open>Inr\<close> of its value.
\<close>

text \<open>
  Modelled from the spec: marshmallow's \<open>validate.Email(error=...)\<close>, "must match an
  email address pattern", the pattern being \<open>email_ok\<close>.
\<close>

definition validate_Email :: "(string \<Rightarrow> bool) \<Rightarrow> string \<Rightarrow> string list" where
  "validate_Email email_ok v = (if email_ok v then [] else [''Not a valid email address''])"

text \<open>Modelled from the spec: marshmallow's \<open>validate.Length\<close>, "length in [6,36]".\<close>

definition validate_Length :: "nat \<Rightarrow> nat \<Rightarrow> string \<Rightarrow> string list" where
  "validate_Length lo hi v =
     (if lo \<le> length v \<and> length v \<le> hi then [] else [''Length must be between 6 and 36.''])"

text \<open>A field declared without \<open>validate\<close>.\<close>

definition no_validator :: "string \<Rightarrow> string list" where
  "no_validator v = []"

text \<open>
  Modelled from the spec: marshmallow's \<open>Str\<close> field with \<open>required=True\<close>. A missing
  field is a violation, so is \<open>null\<close>, so is any other value that is not a string, so
  is each message of the validator.
\<close>

definition load_required_Str :: "(string \<Rightarrow> string list) \<Rightarrow> json option \<Rightarrow> string list + string" where
  "load_required_Str validate v =
     (case v of
        None \<Rightarrow> Inl [''Missing data for required field.'']
      | Some JNull \<Rightarrow> Inl [''Field may not be null.'']
      | Some (JStr x) \<Rightarrow> (if validate x = [] then Inr x else Inl (validate x))
      | Some _ \<Rightarrow> Inl [''Not a valid string.''])"

text \<open>
  Modelled from the spec: marshmallow's \<open>Boolean\<close> field with a \<open>missing\<close> default,
  "optional; defaults to false when absent". \<open>null\<close> is a violation; any other value is
  read by \<open>bool_of\<close>.
\<close>

definition load_Boolean :: "(json \<Rightarrow> bool option) \<Rightarrow> bool \<Rightarrow> json option \<Rightarrow> string list + bool" where
  "load_Boolean bool_of missing v =
     (case v of
        None \<Rightarrow> Inr missing
      | Some JNull \<Rightarrow> Inl [''Field may not be null.'']
      | Some j \<Rightarrow> (case bool_of j of None \<Rightarrow> Inl [''Not a valid boolean.''] | Some b \<Rightarrow> Inr b))"

text \<open>
  Modelled from the spec: the entry of a field in the error set of marshmallow's
  \<open>Schema.load\<close>, keyed by the field's name, and its entry in the validated data.
\<close>

definition field_errors :: "string \<Rightarrow> string list + 'a \<Rightarrow> (string \<times> string list) list" where
  "field_errors name r = (case r of Inl msgs \<Rightarrow> [(name, msgs)] | Inr _ \<Rightarrow> [])"

definition field_value :: "string list + 'a \<Rightarrow> 'a option" where
  "field_value r = (case r of Inl _ \<Rightarrow> None | Inr x \<Rightarrow> Some x)"

text \<open>
  Modelled from the spec: the entries of the error set of marshmallow's \<open>Schema.load\<close>
  for the keys of the payload that are not among the load fields \<open>names\<close> of the
  schema, one for each such key.
\<close>

definition unknown_errors :: "string list \<Rightarrow> payload \<Rightarrow> (string \<times> string list) list" where
  "unknown_errors names data =
     map (\<lambda>k. (k, [''Unknown field.''])) (remdups (filter (\<lambda>k. k \<notin> set names) (map fst data)))"

text \<open>
  The validated data is a dict keyed by the attribute names of the fields that gave a
  value: a record with one optional entry for each, \<open>None\<close> for a key that is absent.
  Reading an absent key raises \<open>KeyError\<close>.
\<close>

record user_data =
  d_email :: "string option"
  d_password :: "string option"

record todo_data =
  d_content :: "string option"
  d_is_done :: "bool option"

definition getitem :: "string \<Rightarrow> 'a option \<Rightarrow> exn + 'a" where
  "getitem key entry = (case entry of None \<Rightarrow> Inl (KeyError key) | Some x \<Rightarrow> Inr x)"

text \<open>
  Modelled from the spec: the validation step of marshmallow's \<open>Schema.load\<close> for
  \<open>UserSchema\<close>. Both fields are checked, in declaration order, then the keys that
  are no load field, and all violations are collected.
\<close>

definition UserSchema_validate :: "(string \<Rightarrow> bool) \<Rightarrow> payload \<Rightarrow> exn + user_data" where
  "UserSchema_validate email_ok data =
     (let e = load_required_Str (validate_Email email_ok) (map_of data ''email'');
          p = load_required_Str (validate_Length 6 36) (map_of data ''password'');
          errors = field_errors ''email'' e @ field_errors ''password'' p @
                   unknown_errors [''email'', ''password''] data
      in if errors = [] then Inr \<lparr>d_email = field_value e, d_password = field_value p\<rparr>
         else Inl (ValidationError errors))"

text \<open>
  Modelled from the spec: marshmallow's \<open>Schema.load\<close> for \<open>UserSchema\<close>, the
  \<open>pre_load\<close> hook "before any validation runs" and then the validation.
\<close>

definition UserSchema_load :: "(string \<Rightarrow> bool) \<Rightarrow> payload \<Rightarrow> exn + user_data" where
  "UserSchema_load email_ok json_input =
     (case process_input json_input of
        Inl x \<Rightarrow> Inl x
      | Inr data \<Rightarrow> UserSchema_validate email_ok data)"

text \<open>
  Modelled from the spec: the validation step of marshmallow's \<open>Schema.load\<close> for
  \<open>TodoSchema\<close>. The wire name \<open>done\<close> is stored under the attribute \<open>is_done\<close>;
  \<open>done\<close> and \<open>content\<close> are the load fields.
\<close>

definition TodoSchema_validate :: "(json \<Rightarrow> bool option) \<Rightarrow> payload \<Rightarrow> exn + todo_data" where
  "TodoSchema_validate bool_of data =
     (let d = load_Boolean bool_of False (map_of data ''done'');
          c = load_required_Str no_validator (map_of data ''content'');
          errors = field_errors ''done'' d @ field_errors ''content'' c @
                   unknown_errors [''done'', ''content''] data
      in if errors = [] then Inr \<lparr>d_content = field_value c, d_is_done = field_value d\<rparr>
         else Inl (ValidationError errors))"

text \<open>
  \<open>TodoSchema.make_object\<close>, the \<open>post_load\<close> hook. It returns \<open>None\<close> for an empty dict
  and otherwise a \<open>Todo\<close> instance that has no id and no user yet, stamped with the
  clock reading \<open>now\<close>.
\<close>

record NewTodo =
  new_content :: string
  new_is_done :: bool
  new_posted_on :: timestamp

definition make_object :: "todo_data \<Rightarrow> timestamp \<Rightarrow> exn + NewTodo option" where
  "make_object data now =
     (if d_content data = None \<and> d_is_done data = None then Inr None
      else case getitem ''content'' (d_content data) of
             Inl x \<Rightarrow> Inl x
           | Inr c \<Rightarrow>
               (case getitem ''is_done'' (d_is_done data) of
                  Inl x \<Rightarrow> Inl x
                | Inr b \<Rightarrow> Inr (Some \<lparr>new_content = c, new_is_done = b, new_posted_on = now\<rparr>)))"

text \<open>
  Modelled from the spec: marshmallow's \<open>Schema.load\<close> for \<open>TodoSchema\<close>, the
  validation and then the \<open>post_load\<close> hook on the validated data.
\<close>

definition TodoSchema_load :: "(json \<Rightarrow> bool option) \<Rightarrow> timestamp \<Rightarrow> payload \<Rightarrow> exn + NewTodo option" where
  "TodoSchema_load bool_of now json_input =
     (case TodoSchema_validate bool_of json_input of
        Inl x \<Rightarrow> Inl x
      | Inr data \<Rightarrow> make_object data now)"

text \<open>
  Modelled from the spec: \<open>err.messages\<close> of marshmallow's \<open>ValidationError\<close> as JSON,
  "the full per-field message set": field name to list of messages.
\<close>

definition messages_json :: "(string \<times> string list) list \<Rightarrow> json" where
  "messages_json msgs = JObj (map (\<lambda>(k, ms). (k, JList (map JStr ms))) msgs)"

subsection \<open>Handlers: \<open>register\<close> and \<open>new_todo\<close>\<close>

text \<open>
  \<open>register\<close> catches \<open>ValidationError\<close> around the load and nothing else; \<open>now\<close> is
  the reading of \<open>datetime.now()\<close>. \<open>data["message"] = message\<close> adds the key to the
  dumped dict.
\<close>

definition setitem :: "json \<Rightarrow> string \<Rightarrow> json \<Rightarrow> json" where
  "setitem d k v = (case d of JObj kvs \<Rightarrow> JObj (AList.update k v kvs) | _ \<Rightarrow> d)"

definition register :: "(string \<Rightarrow> bool) \<Rightarrow> timestamp \<Rightarrow> store \<Rightarrow> payload \<Rightarrow> (exn + response) \<times> store" where
  "register email_ok now s json_input =
     (case UserSchema_load email_ok json_input of
        Inl (ValidationError messages) \<Rightarrow>
          (Inr (with_status (JObj [(''errors'', messages_json messages)]) 422), s)
      | Inl x \<Rightarrow> (Inl x, s)
      | Inr data \<Rightarrow>
          (case getitem ''email'' (d_email data) of
             Inl x \<Rightarrow> (Inl x, s)
           | Inr e \<Rightarrow>
               (case User_get_email s e of
                  Some _ \<Rightarrow>
                    (Inr (with_status
                       (JObj [(''errors'', JStr ''That email address is already in the database'')]) 400), s)
                | None \<Rightarrow>
                    (case getitem ''password'' (d_password data) of
                       Inl x \<Rightarrow> (Inl x, s)
                     | Inr p \<Rightarrow>
                         (case User_create s e now p of
                            Inl x \<Rightarrow> (Inl x, s)
                          | Inr (user, s') \<Rightarrow>
                              (let message = ''Successfully created user: '' @ email user;
                                   data' = setitem (UserSchema_dump user) ''message'' (JStr message)
                               in (Inr (with_status data' 201), s')))))))"

text \<open>
  \<open>check_auth\<close> and the decorator \<open>requires_auth\<close>; \<open>auth\<close> is \<open>request.authorization\<close>,
  the pair of username and password of the request or nothing; \<open>CHR 0x22\<close> is the
  double quote.
\<close>

definition check_auth :: "store \<Rightarrow> string \<Rightarrow> string \<Rightarrow> bool" where
  "check_auth s e p = (case User_get_email s e of None \<Rightarrow> False | Some user \<Rightarrow> p = password user)"

definition please_authenticate :: response where
  "please_authenticate =
     \<lparr>body = JObj [(''message'', JStr ''Please authenticate.'')], status = 401,
      headers = [(''WWW-Authenticate'', ''Basic realm='' @ [CHR 0x22] @ ''Example'' @ [CHR 0x22])]\<rparr>"

definition requires_auth ::
  "(User \<Rightarrow> (exn + response) \<times> store) \<Rightarrow> store \<Rightarrow> (string \<times> string) option \<Rightarrow> (exn + response) \<times> store" where
  "requires_auth f s auth =
     (case auth of
        None \<Rightarrow> (Inr please_authenticate, s)
      | Some (username, pw) \<Rightarrow>
          (if \<not> check_auth s username pw then (Inr please_authenticate, s)
           else case User_get_email s username of
                  None \<Rightarrow> (Inl DoesNotExist, s)
                | Some user \<Rightarrow> f user))"

text \<open>
  \<open>todo.user = user\<close> and \<open>todo.save()\<close> on an instance without id: the row is inserted
  with the next primary key and the user's id as \<open>user_id\<close>.
\<close>

definition Todo_save :: "store \<Rightarrow> NewTodo \<Rightarrow> User \<Rightarrow> Todo \<times> store" where
  "Todo_save s n u =
     (let t = \<lparr>tid = next_id (map tid (todos s)), content = new_content n,
               is_done = new_is_done n, user_id = uid u, posted_on = new_posted_on n\<rparr>
      in (t, s\<lparr>todos := todos s @ [t]\<rparr>))"

text \<open>
  The body of \<open>new_todo\<close>; \<open>now\<close> is the reading of \<open>datetime.utcnow()\<close> in
  \<open>make_object\<close>. Were the load to return \<open>None\<close>, \<open>todo.user = user\<close> would raise
  \<open>AttributeError\<close>. The dump reads the user from the instance, where the handler put it.
\<close>

definition new_todo ::
  "(json \<Rightarrow> bool option) \<Rightarrow> timestamp \<Rightarrow> store \<Rightarrow> payload \<Rightarrow> User \<Rightarrow> (exn + response) \<times> store" where
  "new_todo bool_of now s json_input user =
     (case TodoSchema_load bool_of now json_input of
        Inl (ValidationError messages) \<Rightarrow>
          (Inr (with_status (JObj [(''errors'', messages_json messages)]) 422), s)
      | Inl x \<Rightarrow> (Inl x, s)
      | Inr None \<Rightarrow> (Inl AttributeError, s)
      | Inr (Some todo) \<Rightarrow>
          (let (saved, s') = Todo_save s todo user
           in (Inr (ok (TodoSchema_dump saved user)), s')))"

text \<open>The route \<open>POST /todos/\<close>: \<open>new_todo\<close> under \<open>@requires_auth\<close>.\<close>

definition create_todo ::
  "(json \<Rightarrow> bool option) \<Rightarrow> timestamp \<Rightarrow> store \<Rightarrow> (string \<times> string) option \<Rightarrow> payload \<Rightarrow> (exn + response) \<times> store" where
  "create_todo bool_of now s auth json_input = requires_auth (new_todo bool_of now s json_input) s auth"

text \<open>
  For the examples: an address pattern that asks for an \<open>@\<close>, and a reading of JSON
  booleans that takes \<open>true\<close> and \<open>false\<close> only.
\<close>

definition has_at :: "string \<Rightarrow> bool" where
  "has_at v = (CHR ''@'' \<in> set v)"

definition json_bool :: "json \<Rightarrow> bool option" where
  "json_bool j = (case j of JBool b \<Rightarrow> Some b | _ \<Rightarrow> None)"

subsection \<open>A small store for the examples\<close>

definition alice :: User where
  "alice = \<lparr>uid = 1, email = ''a@b.com'', password = ''secret1'', joined_on = 5\<rparr>"

definition milk :: Todo where
  "milk = \<lparr>tid = 1, content = ''buy milk'', is_done = False, user_id = 1, posted_on = 10\<rparr>"

definition dog :: Todo where
  "dog = \<lparr>tid = 2, content = ''walk dog'', is_done = False, user_id = 1, posted_on = 20\<rparr>"

definition example_store :: store where
  "example_store = \<lparr>users = [alice], todos = [milk, dog]\<rparr>"

definition empty_store :: store where
  "empty_store = \<lparr>users = [], todos = []\<rparr>"

section \<open>Properties\<close>

lemma find_map_is_done:
  "find (\<lambda>t. tid t = k) (map (\<lambda>t. t\<lparr>is_done := b\<rparr>) ts) =
   map_option (\<lambda>t. t\<lparr>is_done := b\<rparr>) (find (\<lambda>t. tid t = k) ts)"
  by (induction ts) simp_all

lemma Todo_get_update:
  "Todo_get (Todo_update_is_done s b) k = map_option (\<lambda>t. t\<lparr>is_done := b\<rparr>) (Todo_get s k)"
  by (simp add: Todo_get_def Todo_update_is_done_def find_map_is_done)

lemma Todo_get_example:
  "Todo_get example_store 1 = Some milk" "Todo_get example_store (Suc 0) = Some milk"
  "Todo_get example_store 2 = Some dog" "Todo_get example_store 7 = None"
  by (simp_all add: Todo_get_def example_store_def milk_def dog_def)

lemma Todo_get_pk_Some:
  assumes "k < 2 ^ 63" and "Todo_get s k = Some t"
  shows "Todo_get_pk s k = Inr t"
  using assms by (simp add: Todo_get_pk_def)

lemma Todo_get_pk_None:
  assumes "k < 2 ^ 63" and "Todo_get s k = None"
  shows "Todo_get_pk s k = Inl DoesNotExist"
  using assms by (simp add: Todo_get_pk_def)

lemma Todo_get_pk_overflow:
  assumes "\<not> k < 2 ^ 63"
  shows "Todo_get_pk s k = Inl OverflowError"
  using assms by (simp add: Todo_get_pk_def)

lemma Todo_get_pk_example:
  "Todo_get_pk example_store 1 = Inr milk" "Todo_get_pk example_store (Suc 0) = Inr milk"
  "Todo_get_pk example_store 7 = Inl DoesNotExist"
  by (simp_all add: Todo_get_pk_def Todo_get_example)

lemma User_get_id_example:
  "User_get_id example_store 1 = Some alice" "User_get_id example_store (Suc 0) = Some alice"
  by (simp_all add: User_get_id_def example_store_def alice_def)

lemma User_get_id_update [simp]:
  "User_get_id (Todo_update_is_done s b) k = User_get_id s k"
  by (simp add: User_get_id_def Todo_update_is_done_def)

subsection \<open>Missing todos\<close>

text \<open>
  For any store and any id within SQLite's range that it does not hold, the two
  handlers differ; beyond that range both let \<open>OverflowError\<close> leave.
\<close>

lemma get_todo_missing:
  assumes "pk < 2 ^ 63" and "Todo_get s pk = None"
  shows "get_todo s pk = (Inl DoesNotExist, s)"
  by (simp add: get_todo_def Todo_get_pk_None [OF assms])

lemma toggledone_missing:
  assumes "pk < 2 ^ 63" and "Todo_get s pk = None"
  shows "toggledone s pk =
           (Inr \<lparr>body = JObj [(''message'', JStr ''Todo could not be found'')], status = 404,
                 headers = []\<rparr>, s)"
  by (simp add: toggledone_def Todo_get_pk_None [OF assms] with_status_def)

lemma handlers_overflow:
  assumes "\<not> pk < 2 ^ 63"
  shows "get_todo s pk = (Inl OverflowError, s)" "toggledone s pk = (Inl OverflowError, s)"
  by (simp_all add: get_todo_def toggledone_def Todo_get_pk_overflow [OF assms])

text \<open>
  C1. The claim: for an id with no todo, get-todo answers 404 with a JSON error body, and
  so does toggle-todo. \<open>toggledone\<close> does; \<open>get_todo\<close> lets \<open>DoesNotExist\<close> leave the
  handler. At the example store and the id 7, which it does not hold:
\<close>

theorem get_todo_missing_raises:
  "get_todo example_store 7 = (Inl DoesNotExist, example_store) \<and>
   toggledone example_store 7 =
     (Inr \<lparr>body = JObj [(''message'', JStr ''Todo could not be found'')], status = 404, headers = []\<rparr>,
      example_store)"
  by (simp add: get_todo_def toggledone_def Todo_get_pk_example with_status_def)

subsection \<open>Toggling\<close>

text \<open>
  What toggling a stored todo does, for any store and any id within SQLite's range:
  every row of the Todo table gets the negation of the fetched todo's \<open>is_done\<close>, no
  other field of any row and no user changes, and the response is the dump of the todo
  as it was fetched.
\<close>

lemma toggledone_store:
  assumes "k < 2 ^ 63" and "Todo_get s k = Some t"
  shows "snd (toggledone s k) = s\<lparr>todos := map (\<lambda>r. r\<lparr>is_done := \<not> is_done t\<rparr>) (todos s)\<rparr>"
  by (simp add: toggledone_def Todo_get_pk_Some [OF assms] Let_def Todo_update_is_done_def)

lemma toggledone_stored_flipped:
  assumes "k < 2 ^ 63" and "Todo_get s k = Some t"
  shows "Todo_get (snd (toggledone s k)) k = Some (t\<lparr>is_done := \<not> is_done t\<rparr>)"
  using assms(2) by (simp add: toggledone_def Todo_get_pk_Some [OF assms] Let_def Todo_get_update)

lemma toggledone_response:
  assumes "k < 2 ^ 63" and "Todo_get s k = Some t" and "User_get_id s (user_id t) = Some u"
  shows "fst (toggledone s k) = Inr (ok (TodoSchema_dump t u))"
  using assms(3) by (simp add: toggledone_def Todo_get_pk_Some [OF assms(1,2)] Let_def dump_fetched_def)

text \<open>
  C2. The claim: toggling the todo with id \<open>k\<close> changes nothing in the store but that
  todo's \<open>is_done\<close>. The update query of \<open>toggledone\<close> has no \<open>where\<close> clause: toggling
  todo 1 of the example store also sets \<open>is_done\<close> of todo 2.
\<close>

theorem toggledone_writes_every_row:
  "Todo_get example_store 2 = Some dog \<and> is_done dog = False \<and>
   Todo_get (snd (toggledone example_store 1)) 2 = Some (dog\<lparr>is_done := True\<rparr>)"
  by (simp add: toggledone_def Todo_get_pk_example Todo_get_example Todo_get_update Let_def)
     (simp add: milk_def dog_def)

text \<open>
  C3. The claim: toggling a todo whose \<open>is_done\<close> is \<open>b\<close> stores \<open>\<not> b\<close> and answers
  with the updated todo, \<open>done = \<not> b\<close>. The stored value is flipped, but the response
  dumps the instance fetched before the update: toggling todo 1 of the example store
  (not done) stores \<open>is_done = True\<close> and answers \<open>done = False\<close>.
\<close>

theorem toggledone_dumps_stale_instance:
  "is_done milk = False \<and>
   map_option is_done (Todo_get (snd (toggledone example_store 1)) 1) = Some True \<and>
   fst (toggledone example_store 1) =
     Inr \<lparr>body = JObj [(''todo'', JObj
              [(''id'', JInt 1), (''done'', JBool False),
               (''user'', JObj [(''user'', JObj [(''id'', JInt 1), (''email'', JStr ''a@b.com'')])]),
               (''content'', JStr ''buy milk''), (''posted_on'', JTime 10)])],
          status = 200, headers = []\<rparr>"
  by (simp add: toggledone_def Todo_get_pk_example Todo_get_example Todo_get_update Let_def
        dump_fetched_def User_get_id_example TodoSchema_dump_def TodoSchema_wrap_def
        TodoSchema_serialize_def Todo_user_summary_def UserSchema_wrap_def
        UserSchema_serialize_def ok_def milk_def alice_def)

text \<open>
  C6. Toggling a stored todo twice in a row leaves its stored \<open>is_done\<close> as it was
  before the first call (and with it the whole row).
\<close>

theorem toggledone_twice:
  assumes "Todo_get s k = Some t"
  shows "Todo_get (snd (toggledone (snd (toggledone s k)) k)) k = Some t"
proof (cases "k < 2 ^ 63")
  case True
  let ?s1 = "Todo_update_is_done s (\<not> is_done t)"
  have one: "snd (toggledone s k) = ?s1"
    by (simp add: toggledone_def Todo_get_pk_Some [OF True assms] Let_def)
  have got: "Todo_get ?s1 k = Some (t\<lparr>is_done := \<not> is_done t\<rparr>)"
    using assms by (simp add: Todo_get_update)
  have two: "snd (toggledone ?s1 k) = Todo_update_is_done ?s1 (is_done t)"
    by (simp add: toggledone_def Todo_get_pk_Some [OF True got] Let_def)
  have "Todo_get (Todo_update_is_done ?s1 (is_done t)) k =
        map_option (\<lambda>t'. t'\<lparr>is_done := is_done t\<rparr>) (Todo_get ?s1 k)"
    by (rule Todo_get_update)
  also have "\<dots> = Some t"
    unfolding got by simp
  finally show ?thesis
    unfolding one two .
next
  case False
  then show ?thesis
    using assms by (simp add: handlers_overflow)
qed

theorem toggledone_twice_witness:
  "Todo_get example_store 1 = Some milk \<and>
   Todo_get (snd (toggledone (snd (toggledone example_store 1)) 1)) 1 = Some milk"
  using toggledone_twice [of example_store 1 milk] by (simp add: Todo_get_example)

subsection \<open>Loading a user\<close>

lemma normalise_example:
  "strip (lower '' A@B.com '') = ''a@b.com''" "strip (lower ''A@B.com'') = ''a@b.com''"
  by code_simp+

lemma process_input_Str:
  assumes "map_of json_input ''email'' = Some (JStr e)"
  shows "process_input json_input = Inr (AList.update ''email'' (JStr (strip (lower e))) json_input)"
  using assms by (simp add: process_input_def)

lemma UserSchema_validate_Inr:
  assumes "UserSchema_validate email_ok data = Inr d"
  shows "\<exists>e p. map_of data ''email'' = Some (JStr e) \<and> map_of data ''password'' = Some (JStr p) \<and>
           email_ok e \<and> 6 \<le> length p \<and> length p \<le> 36 \<and>
           d = \<lparr>d_email = Some e, d_password = Some p\<rparr>"
  using assms
  by (auto simp: UserSchema_validate_def Let_def load_required_Str_def field_errors_def
        field_value_def validate_Email_def validate_Length_def
        split: option.splits json.splits if_splits)

lemma unknown_errors_Nil:
  assumes "set (map fst data) \<subseteq> set names"
  shows "unknown_errors names data = []"
proof -
  have "filter (\<lambda>k. k \<notin> set names) (map fst data) = []"
    using assms by (auto simp: filter_empty_conv)
  then show ?thesis
    by (simp add: unknown_errors_def)
qed

lemma UserSchema_validate_ok:
  assumes "map_of data ''email'' = Some (JStr e)" "map_of data ''password'' = Some (JStr p)"
    "email_ok e" "6 \<le> length p" "length p \<le> 36"
    "set (map fst data) \<subseteq> {''email'', ''password''}"
  shows "UserSchema_validate email_ok data = Inr \<lparr>d_email = Some e, d_password = Some p\<rparr>"
proof -
  have "unknown_errors [''email'', ''password''] data = []"
    using assms(6) by (intro unknown_errors_Nil) simp
  with assms(1-5) show ?thesis
    by (simp add: UserSchema_validate_def Let_def load_required_Str_def field_errors_def
          field_value_def validate_Email_def validate_Length_def)
qed

text \<open>
  What a successful load of a user gives: the payload has a string under \<open>email\<close> whose
  normal form matches the pattern and a string of 6 to 36 characters under \<open>password\<close>,
  and the validated data holds the normal form of the address and the password.
\<close>

lemma UserSchema_load_Inr:
  assumes "UserSchema_load email_ok json_input = Inr d"
  shows "\<exists>e p. map_of json_input ''email'' = Some (JStr e) \<and>
           map_of json_input ''password'' = Some (JStr p) \<and>
           email_ok (strip (lower e)) \<and> 6 \<le> length p \<and> length p \<le> 36 \<and>
           d = \<lparr>d_email = Some (strip (lower e)), d_password = Some p\<rparr>"
proof -
  from assms obtain data where pi: "process_input json_input = Inr data"
    and v: "UserSchema_validate email_ok data = Inr d"
    by (auto simp: UserSchema_load_def split: sum.splits)
  from pi obtain e where e: "map_of json_input ''email'' = Some (JStr e)"
    and data: "data = AList.update ''email'' (JStr (strip (lower e))) json_input"
    by (auto simp: process_input_def split: option.splits json.splits)
  from UserSchema_validate_Inr [OF v] data e show ?thesis
    by (auto simp: update_conv')
qed

lemma UserSchema_load_ok:
  assumes "map_of json_input ''email'' = Some (JStr e)"
    "map_of json_input ''password'' = Some (JStr p)"
    "email_ok (strip (lower e))" "6 \<le> length p" "length p \<le> 36"
    "set (map fst json_input) \<subseteq> {''email'', ''password''}"
  shows "UserSchema_load email_ok json_input =
           Inr \<lparr>d_email = Some (strip (lower e)), d_password = Some p\<rparr>"
proof -
  let ?data = "AList.update ''email'' (JStr (strip (lower e))) json_input"
  have "''email'' \<in> set (map fst json_input)"
    using assms(1) by (auto dest: map_of_SomeD intro: rev_image_eqI)
  then have keys: "set (map fst ?data) \<subseteq> {''email'', ''password''}"
    using assms(6) by (simp add: update_keys)
  have "UserSchema_validate email_ok ?data =
      Inr \<lparr>d_email = Some (strip (lower e)), d_password = Some p\<rparr>"
    using assms(2-5) keys by (intro UserSchema_validate_ok) (simp_all add: update_conv')
  then show ?thesis
    by (simp add: UserSchema_load_def process_input_Str [OF assms(1)])
qed

text \<open>
  Violations are collected, not cut short at the first: an address without \<open>@\<close> and a
  password of three characters are both reported, under their field names, with 422.
\<close>

lemma register_collects_violations:
  "register has_at now s [(''email'', JStr ''nobody''), (''password'', JStr ''abc'')] =
     (Inr \<lparr>body = JObj [(''errors'', JObj
              [(''email'', JList [JStr ''Not a valid email address'']),
               (''password'', JList [JStr ''Length must be between 6 and 36.''])])],
           status = 422, headers = []\<rparr>, s)"
proof -
  have n: "strip (lower ''nobody'') = ''nobody''" by code_simp
  have "UserSchema_load has_at [(''email'', JStr ''nobody''), (''password'', JStr ''abc'')] =
      Inl (ValidationError [(''email'', [''Not a valid email address'']),
                            (''password'', [''Length must be between 6 and 36.''])])"
    by (simp add: UserSchema_load_def process_input_def n UserSchema_validate_def
          load_required_Str_def validate_Email_def validate_Length_def has_at_def
          field_errors_def unknown_errors_def Let_def)
  then show ?thesis
    by (simp add: register_def messages_json_def with_status_def)
qed

subsection \<open>Registration\<close>

text \<open>
  C4. The claim: the User schema checks every field, collects all violations by field
  name and fails with \<open>ValidationError\<close>, which \<open>register\<close> answers with 422; in
  particular a payload without \<open>email\<close> fails with a \<open>ValidationError\<close> that cites
  \<open>email\<close>. The collection works as claimed for the payloads that reach it
  (\<open>register_collects_violations\<close>), but the \<open>pre_load\<close> hook reads \<open>data["email"]\<close>
  before any field is checked: for the payload \<open>{password: "secret1"}\<close> it raises
  \<open>KeyError\<close>, which \<open>register\<close> does not catch.
\<close>

theorem register_missing_email_raises:
  "register email_ok now s [(''password'', JStr ''secret1'')] = (Inl (KeyError ''email''), s)"
  by (simp add: register_def UserSchema_load_def process_input_def)

text \<open>
  C5, as stated: whenever the normal form of the payload's address is the address of
  a stored user, \<open>register\<close> answers 400. It does not when the payload fails
  validation, which comes first: with the stored address in capitals and a password of
  three characters the answer is 422.
\<close>

theorem register_conflict_needs_valid_payload:
  "User_get_email example_store (strip (lower ''A@B.com'')) = Some alice \<and>
   register has_at 99 example_store [(''email'', JStr ''A@B.com''), (''password'', JStr ''abc'')] =
     (Inr \<lparr>body = JObj [(''errors'', JObj
              [(''password'', JList [JStr ''Length must be between 6 and 36.''])])],
           status = 422, headers = []\<rparr>, example_store) \<and>
   fst (register has_at 99 example_store [(''email'', JStr ''A@B.com''), (''password'', JStr ''abc'')]) \<noteq>
     Inr \<lparr>body = JObj [(''errors'', JStr ''That email address is already in the database'')],
           status = 400, headers = []\<rparr>"
proof -
  have "UserSchema_load has_at [(''email'', JStr ''A@B.com''), (''password'', JStr ''abc'')] =
      Inl (ValidationError [(''password'', [''Length must be between 6 and 36.''])])"
    by (simp add: UserSchema_load_def process_input_def normalise_example UserSchema_validate_def
          load_required_Str_def validate_Email_def validate_Length_def has_at_def
          field_errors_def unknown_errors_def Let_def)
  then show ?thesis
    by (simp add: register_def messages_json_def with_status_def normalise_example
          User_get_email_def example_store_def alice_def)
qed

text \<open>
  C5, amended: for every payload that passes the validation of the User schema and
  whose address, lower-cased and stripped, is the address of a stored user,
  \<open>register\<close> answers 400 with the body
  \<open>{errors: "That email address is already in the database"}\<close> and leaves the store
  as it was.
\<close>

theorem register_conflict:
  assumes "UserSchema_load email_ok json_input = Inr data"
    and "map_of json_input ''email'' = Some (JStr e)"
    and "User_get_email s (strip (lower e)) = Some u"
  shows "register email_ok now s json_input =
           (Inr \<lparr>body = JObj [(''errors'', JStr ''That email address is already in the database'')],
                 status = 400, headers = []\<rparr>, s)"
proof -
  from UserSchema_load_Inr [OF assms(1)] assms(2)
  have "d_email data = Some (strip (lower e))" by auto
  with assms(1,3) show ?thesis
    by (simp add: register_def getitem_def with_status_def)
qed

theorem register_conflict_witness:
  "UserSchema_load has_at [(''email'', JStr ''A@B.com''), (''password'', JStr ''secret1'')] =
     Inr \<lparr>d_email = Some ''a@b.com'', d_password = Some ''secret1''\<rparr> \<and>
   map_of [(''email'', JStr ''A@B.com''), (''password'', JStr ''secret1'')] ''email'' =
     Some (JStr ''A@B.com'') \<and>
   User_get_email example_store (strip (lower ''A@B.com'')) = Some alice \<and>
   register has_at 99 example_store [(''email'', JStr ''A@B.com''), (''password'', JStr ''secret1'')] =
     (Inr \<lparr>body = JObj [(''errors'', JStr ''That email address is already in the database'')],
           status = 400, headers = []\<rparr>, example_store)"
proof -
  let ?p = "[(''email'', JStr ''A@B.com''), (''password'', JStr ''secret1'')]"
  have h1: "UserSchema_load has_at ?p = Inr \<lparr>d_email = Some ''a@b.com'', d_password = Some ''secret1''\<rparr>"
    using UserSchema_load_ok [of ?p "''A@B.com''" "''secret1''" has_at]
    by (simp add: normalise_example has_at_def)
  have h2: "map_of ?p ''email'' = Some (JStr ''A@B.com'')" by simp
  have h3: "User_get_email example_store (strip (lower ''A@B.com'')) = Some alice"
    by (simp add: normalise_example User_get_email_def example_store_def alice_def)
  from register_conflict [OF h1 h2 h3, of 99] h1 h2 h3 show ?thesis by simp
qed

lemma User_create_fresh:
  assumes "User_get_email s e = None"
  shows "User_create s e j p =
     Inr (\<lparr>uid = next_id (map uid (users s)), email = e, password = p, joined_on = j\<rparr>,
          s\<lparr>users := users s @ [\<lparr>uid = next_id (map uid (users s)), email = e, password = p, joined_on = j\<rparr>]\<rparr>)"
  using assms
  by (simp add: User_create_def User_get_email_def find_None_iff list_ex_iff Let_def)

text \<open>
  C7. For every payload that passes the validation of the User schema and whose
  normal address is not stored yet, \<open>register\<close> answers 201; the row it adds holds the
  address lower-cased and stripped; the body is the user envelope with \<open>id\<close>, \<open>email\<close>
  and \<open>joined_on\<close>, without \<open>password\<close>, and a \<open>message\<close> that ends with the normal
  address.
\<close>

theorem register_created:
  assumes "UserSchema_load email_ok json_input = Inr data"
    and "map_of json_input ''email'' = Some (JStr e)"
    and "map_of json_input ''password'' = Some (JStr p)"
    and "User_get_email s (strip (lower e)) = None"
  shows "register email_ok now s json_input =
           (Inr \<lparr>body = JObj
                   [(''user'', JObj [(''id'', JInt (int (next_id (map uid (users s))))),
                                     (''email'', JStr (strip (lower e))),
                                     (''joined_on'', JTime now)]),
                    (''message'', JStr (''Successfully created user: '' @ strip (lower e)))],
                 status = 201, headers = []\<rparr>,
            s\<lparr>users := users s @
                 [\<lparr>uid = next_id (map uid (users s)), email = strip (lower e),
                   password = p, joined_on = now\<rparr>]\<rparr>)"
proof -
  from UserSchema_load_Inr [OF assms(1)] assms(2,3)
  have data: "data = \<lparr>d_email = Some (strip (lower e)), d_password = Some p\<rparr>" by auto
  show ?thesis
    by (simp add: register_def assms(1) data getitem_def assms(4) User_create_fresh
          UserSchema_dump_def UserSchema_wrap_def UserSchema_serialize_def setitem_def
          with_status_def Let_def)
qed

text \<open>The example of the spec: \<open>" A@B.com "\<close> is stored as \<open>"a@b.com"\<close>.\<close>

theorem register_created_witness:
  "UserSchema_load has_at [(''email'', JStr '' A@B.com ''), (''password'', JStr ''secret1'')] =
     Inr \<lparr>d_email = Some ''a@b.com'', d_password = Some ''secret1''\<rparr> \<and>
   User_get_email empty_store (strip (lower '' A@B.com '')) = None \<and>
   register has_at 99 empty_store [(''email'', JStr '' A@B.com ''), (''password'', JStr ''secret1'')] =
     (Inr \<lparr>body = JObj
             [(''user'', JObj [(''id'', JInt 1), (''email'', JStr ''a@b.com''), (''joined_on'', JTime 99)]),
              (''message'', JStr ''Successfully created user: a@b.com'')],
           status = 201, headers = []\<rparr>,
      \<lparr>users = [\<lparr>uid = 1, email = ''a@b.com'', password = ''secret1'', joined_on = 99\<rparr>],
       todos = []\<rparr>)"
proof -
  let ?p = "[(''email'', JStr '' A@B.com ''), (''password'', JStr ''secret1'')]"
  have h1: "UserSchema_load has_at ?p = Inr \<lparr>d_email = Some ''a@b.com'', d_password = Some ''secret1''\<rparr>"
    using UserSchema_load_ok [of ?p "'' A@B.com ''" "''secret1''" has_at]
    by (simp add: normalise_example has_at_def)
  have h2: "map_of ?p ''email'' = Some (JStr '' A@B.com '')" by simp
  have h3: "map_of ?p ''password'' = Some (JStr ''secret1'')" by simp
  have h4: "User_get_email empty_store (strip (lower '' A@B.com '')) = None"
    by (simp add: User_get_email_def empty_store_def)
  from register_created [OF h1 h2 h3 h4, of 99] h1 h4 show ?thesis
    by (simp add: normalise_example empty_store_def next_id_def)
qed

subsection \<open>Creating a todo\<close>

lemma TodoSchema_validate_Inr:
  assumes "TodoSchema_validate bool_of json_input = Inr data"
  shows "\<exists>c b. data = \<lparr>d_content = Some c, d_is_done = Some b\<rparr> \<and>
           map_of json_input ''content'' = Some (JStr c) \<and>
           load_Boolean bool_of False (map_of json_input ''done'') = Inr b"
  using assms
  by (auto simp: TodoSchema_validate_def Let_def load_required_Str_def field_errors_def
        field_value_def no_validator_def
        split: option.splits json.splits if_splits sum.splits)

lemma TodoSchema_validate_content:
  assumes "map_of json_input ''content'' = Some (JStr c)"
    and "map_of json_input ''done'' = None"
    and "set (map fst json_input) \<subseteq> {''done'', ''content''}"
  shows "TodoSchema_validate bool_of json_input = Inr \<lparr>d_content = Some c, d_is_done = Some False\<rparr>"
proof -
  have "unknown_errors [''done'', ''content''] json_input = []"
    using assms(3) by (intro unknown_errors_Nil) simp
  with assms(1,2) show ?thesis
    by (simp add: TodoSchema_validate_def Let_def load_required_Str_def load_Boolean_def
          field_errors_def field_value_def no_validator_def)
qed

lemma TodoSchema_validate_missing_content:
  assumes "map_of json_input ''content'' = None"
  shows "\<exists>msgs. TodoSchema_validate bool_of json_input = Inl (ValidationError msgs) \<and>
           map_of msgs ''content'' = Some [''Missing data for required field.'']"
  using assms
  by (cases "load_Boolean bool_of False (map_of json_input ''done'')")
     (simp_all add: TodoSchema_validate_def Let_def load_required_Str_def field_errors_def)

text \<open>
  Valid credentials: a stored user has the username as address and the password as
  password. The gate then calls the handler with that user.
\<close>

lemma requires_auth_valid:
  assumes "User_get_email s username = Some u" and "password u = pw"
  shows "requires_auth f s (Some (username, pw)) = f u"
  using assms by (simp add: requires_auth_def check_auth_def)

lemma User_get_email_example:
  "User_get_email example_store ''a@b.com'' = Some alice" "password alice = ''secret1''"
  by (simp_all add: User_get_email_def example_store_def alice_def)

text \<open>
  C8, as stated: for every create-todo request with valid credentials and a payload
  with a non-empty content string and no \<open>done\<close>, the todo is stored with
  \<open>is_done = False\<close>, the authenticated user and the creation time, and the response
  is \<open>{todo: {id, content, done, posted_on, user: {id, email}}}\<close>. Two things differ.
  The nested user is dumped by \<open>UserSchema\<close>, whose hook wraps it: for
  \<open>{content: "buy milk"}\<close> the entry is \<open>user: {user: {id, email}}\<close>. And a payload
  with a content string, no \<open>done\<close> and a key that is no load field of the schema is
  answered with 422 and nothing is stored.
\<close>

theorem create_todo_nested_envelope_and_unknown_key:
  "create_todo json_bool 99 example_store (Some (''a@b.com'', ''secret1''))
       [(''content'', JStr ''buy milk'')] =
     (Inr \<lparr>body = JObj [(''todo'', JObj
              [(''id'', JInt 3), (''done'', JBool False),
               (''user'', JObj [(''user'', JObj [(''id'', JInt 1), (''email'', JStr ''a@b.com'')])]),
               (''content'', JStr ''buy milk''), (''posted_on'', JTime 99)])],
           status = 200, headers = []\<rparr>,
      \<lparr>users = [alice],
       todos = [milk, dog,
         \<lparr>tid = 3, content = ''buy milk'', is_done = False, user_id = 1, posted_on = 99\<rparr>]\<rparr>) \<and>
   fst (create_todo json_bool 99 example_store (Some (''a@b.com'', ''secret1''))
       [(''content'', JStr ''buy milk'')]) \<noteq>
     Inr \<lparr>body = JObj [(''todo'', JObj
              [(''id'', JInt 3), (''done'', JBool False),
               (''user'', JObj [(''id'', JInt 1), (''email'', JStr ''a@b.com'')]),
               (''content'', JStr ''buy milk''), (''posted_on'', JTime 99)])],
           status = 200, headers = []\<rparr> \<and>
   create_todo json_bool 99 example_store (Some (''a@b.com'', ''secret1''))
       [(''content'', JStr ''buy milk''), (''priority'', JInt 1)] =
     (Inr \<lparr>body = JObj [(''errors'', JObj [(''priority'', JList [JStr ''Unknown field.''])])],
           status = 422, headers = []\<rparr>,
      example_store)"
proof -
  have auth: "\<And>f. requires_auth f example_store (Some (''a@b.com'', ''secret1'')) = f alice"
    by (rule requires_auth_valid [OF User_get_email_example])
  have k: "next_id (map tid (todos example_store)) = 3"
    by (simp add: next_id_def example_store_def milk_def dog_def)
  have load: "TodoSchema_load json_bool 99 [(''content'', JStr ''buy milk'')] =
      Inr (Some \<lparr>new_content = ''buy milk'', new_is_done = False, new_posted_on = 99\<rparr>)"
    by (simp add: TodoSchema_load_def TodoSchema_validate_content make_object_def getitem_def)
  have created: "create_todo json_bool 99 example_store (Some (''a@b.com'', ''secret1''))
       [(''content'', JStr ''buy milk'')] =
     (Inr \<lparr>body = JObj [(''todo'', JObj
              [(''id'', JInt 3), (''done'', JBool False),
               (''user'', JObj [(''user'', JObj [(''id'', JInt 1), (''email'', JStr ''a@b.com'')])]),
               (''content'', JStr ''buy milk''), (''posted_on'', JTime 99)])],
           status = 200, headers = []\<rparr>,
      \<lparr>users = [alice],
       todos = [milk, dog,
         \<lparr>tid = 3, content = ''buy milk'', is_done = False, user_id = 1, posted_on = 99\<rparr>]\<rparr>)"
    by (simp add: create_todo_def auth new_todo_def load Todo_save_def Let_def k
          TodoSchema_dump_def TodoSchema_wrap_def TodoSchema_serialize_def
          Todo_user_summary_def UserSchema_wrap_def UserSchema_serialize_def ok_def)
       (simp add: example_store_def alice_def)
  have unknown: "TodoSchema_load json_bool 99
       [(''content'', JStr ''buy milk''), (''priority'', JInt 1)] =
      Inl (ValidationError [(''priority'', [''Unknown field.''])])"
    by (simp add: TodoSchema_load_def TodoSchema_validate_def load_required_Str_def
          load_Boolean_def no_validator_def field_errors_def unknown_errors_def Let_def)
  have rejected: "create_todo json_bool 99 example_store (Some (''a@b.com'', ''secret1''))
       [(''content'', JStr ''buy milk''), (''priority'', JInt 1)] =
     (Inr \<lparr>body = JObj [(''errors'', JObj [(''priority'', JList [JStr ''Unknown field.''])])],
           status = 422, headers = []\<rparr>,
      example_store)"
    by (simp add: create_todo_def auth new_todo_def unknown messages_json_def with_status_def)
  show ?thesis
    unfolding created rejected by simp
qed

text \<open>
  C8, amended: for every create-todo request with valid credentials and a payload that
  holds a string under \<open>content\<close> (non-empty or not), no \<open>done\<close> and no key that is not
  a load field of the Todo schema, the row that is added has \<open>is_done = False\<close>, the id
  of the authenticated user as \<open>user_id\<close> and the clock reading of the load as
  \<open>posted_on\<close>; the response is the envelope
  \<open>{todo: {id, done, user: {user: {id, email}}, content, posted_on}}\<close>, whose user
  summary, itself in the user envelope, has neither \<open>password\<close> nor \<open>joined_on\<close>.
\<close>

theorem create_todo_created:
  assumes "User_get_email s username = Some u" and "password u = pw"
    and "map_of json_input ''content'' = Some (JStr c)"
    and "map_of json_input ''done'' = None"
    and "set (map fst json_input) \<subseteq> {''done'', ''content''}"
  shows "create_todo bool_of now s (Some (username, pw)) json_input =
           (Inr \<lparr>body = JObj [(''todo'', JObj
                    [(''id'', JInt (int (next_id (map tid (todos s))))),
                     (''done'', JBool False),
                     (''user'', JObj [(''user'',
                        JObj [(''id'', JInt (int (uid u))), (''email'', JStr (email u))])]),
                     (''content'', JStr c),
                     (''posted_on'', JTime now)])],
                 status = 200, headers = []\<rparr>,
            s\<lparr>todos := todos s @
                 [\<lparr>tid = next_id (map tid (todos s)), content = c, is_done = False,
                   user_id = uid u, posted_on = now\<rparr>]\<rparr>)"
proof -
  have load: "TodoSchema_load bool_of now json_input =
      Inr (Some \<lparr>new_content = c, new_is_done = False, new_posted_on = now\<rparr>)"
    by (simp add: TodoSchema_load_def TodoSchema_validate_content [OF assms(3,4,5)]
          make_object_def getitem_def)
  show ?thesis
    by (simp add: create_todo_def requires_auth_valid [OF assms(1,2)] new_todo_def load
          Todo_save_def Let_def TodoSchema_dump_def TodoSchema_wrap_def
          TodoSchema_serialize_def Todo_user_summary_def UserSchema_wrap_def
          UserSchema_serialize_def ok_def)
qed

theorem create_todo_created_witness:
  "User_get_email example_store ''a@b.com'' = Some alice \<and> password alice = ''secret1'' \<and>
   map_of [(''content'', JStr ''walk dog'')] ''content'' = Some (JStr ''walk dog'') \<and>
   map_of [(''content'', JStr ''walk dog'')] ''done'' = None \<and>
   set (map fst [(''content'', JStr ''walk dog'')]) \<subseteq> {''done'', ''content''} \<and>
   create_todo json_bool 42 example_store (Some (''a@b.com'', ''secret1''))
       [(''content'', JStr ''walk dog'')] =
     (Inr \<lparr>body = JObj [(''todo'', JObj
              [(''id'', JInt 3), (''done'', JBool False),
               (''user'', JObj [(''user'', JObj [(''id'', JInt 1), (''email'', JStr ''a@b.com'')])]),
               (''content'', JStr ''walk dog''), (''posted_on'', JTime 42)])],
           status = 200, headers = []\<rparr>,
      \<lparr>users = [alice],
       todos = [milk, dog,
         \<lparr>tid = 3, content = ''walk dog'', is_done = False, user_id = 1, posted_on = 42\<rparr>]\<rparr>)"
proof -
  have h3: "map_of [(''content'', JStr ''walk dog'')] ''content'' = Some (JStr ''walk dog'')"
    by simp
  have h4: "map_of [(''content'', JStr ''walk dog'')] ''done'' = None"
    by simp
  have h5: "set (map fst [(''content'', JStr ''walk dog'')]) \<subseteq> {''done'', ''content''}"
    by simp
  have k: "next_id (map tid (todos example_store)) = 3"
    by (simp add: next_id_def example_store_def milk_def dog_def)
  from create_todo_created [OF User_get_email_example h3 h4 h5, of json_bool 42]
  show ?thesis
    by (simp add: k User_get_email_example) (simp add: example_store_def alice_def)
qed

text \<open>
  C9. For every payload without \<open>content\<close>, create-todo after a successful
  authentication answers 422 with an \<open>errors\<close> body that has an entry for \<open>content\<close>,
  and the store is as it was.
\<close>

theorem create_todo_missing_content:
  assumes "User_get_email s username = Some u" and "password u = pw"
    and "map_of json_input ''content'' = None"
  shows "\<exists>msgs. create_todo bool_of now s (Some (username, pw)) json_input =
             (Inr \<lparr>body = JObj [(''errors'', messages_json msgs)], status = 422, headers = []\<rparr>, s) \<and>
           map_of msgs ''content'' = Some [''Missing data for required field.'']"
proof -
  from TodoSchema_validate_missing_content [OF assms(3)]
  obtain msgs where v: "TodoSchema_validate bool_of json_input = Inl (ValidationError msgs)"
    and m: "map_of msgs ''content'' = Some [''Missing data for required field.'']"
    by blast
  have "create_todo bool_of now s (Some (username, pw)) json_input =
          (Inr \<lparr>body = JObj [(''errors'', messages_json msgs)], status = 422, headers = []\<rparr>, s)"
    by (simp add: create_todo_def requires_auth_valid [OF assms(1,2)] new_todo_def
          TodoSchema_load_def v with_status_def)
  with m show ?thesis by blast
qed

theorem create_todo_missing_content_witness:
  "User_get_email example_store ''a@b.com'' = Some alice \<and> password alice = ''secret1'' \<and>
   map_of [(''done'', JBool True)] ''content'' = None \<and>
   (\<exists>msgs. create_todo json_bool 99 example_store (Some (''a@b.com'', ''secret1''))
              [(''done'', JBool True)] =
             (Inr \<lparr>body = JObj [(''errors'', messages_json msgs)], status = 422, headers = []\<rparr>,
              example_store) \<and>
           map_of msgs ''content'' = Some [''Missing data for required field.''])"
proof -
  have h3: "map_of [(''done'', JBool True)] ''content'' = None"
    by simp
  from create_todo_missing_content [OF User_get_email_example h3, of json_bool 99]
  show ?thesis
    by (simp add: User_get_email_example)
qed

text \<open>
  C10. Whenever the validation of the Todo schema succeeds, the validated data holds
  both \<open>content\<close> and \<open>is_done\<close>, the latter \<open>False\<close> when the payload has no \<open>done\<close>.
  So the two lookups of \<open>make_object\<close> succeed, \<open>make_object\<close> and with it the load
  return a Todo instance and not \<open>None\<close>, and \<open>new_todo\<close> goes on to save and dump it.
\<close>

theorem TodoSchema_load_gives_object:
  assumes "TodoSchema_validate bool_of json_input = Inr data"
  shows "\<exists>c b. d_content data = Some c \<and> d_is_done data = Some b \<and>
           (map_of json_input ''done'' = None \<and> b = False \<or>
            (\<exists>j. map_of json_input ''done'' = Some j \<and> bool_of j = Some b)) \<and>
           getitem ''content'' (d_content data) = Inr c \<and>
           getitem ''is_done'' (d_is_done data) = Inr b \<and>
           make_object data now =
             Inr (Some \<lparr>new_content = c, new_is_done = b, new_posted_on = now\<rparr>) \<and>
           TodoSchema_load bool_of now json_input =
             Inr (Some \<lparr>new_content = c, new_is_done = b, new_posted_on = now\<rparr>) \<and>
           new_todo bool_of now s json_input user =
             (Inr (ok (TodoSchema_dump
                    (fst (Todo_save s \<lparr>new_content = c, new_is_done = b, new_posted_on = now\<rparr> user))
                    user)),
              snd (Todo_save s \<lparr>new_content = c, new_is_done = b, new_posted_on = now\<rparr> user))"
proof -
  from TodoSchema_validate_Inr [OF assms]
  obtain c b where data: "data = \<lparr>d_content = Some c, d_is_done = Some b\<rparr>"
    and "map_of json_input ''content'' = Some (JStr c)"
    and d: "load_Boolean bool_of False (map_of json_input ''done'') = Inr b"
    by blast
  from d have dn: "map_of json_input ''done'' = None \<and> b = False \<or>
            (\<exists>j. map_of json_input ''done'' = Some j \<and> bool_of j = Some b)"
    by (auto simp: load_Boolean_def split: option.splits json.splits)
  have mk: "make_object data now =
      Inr (Some \<lparr>new_content = c, new_is_done = b, new_posted_on = now\<rparr>)"
    by (simp add: make_object_def data getitem_def)
  have ld: "TodoSchema_load bool_of now json_input =
      Inr (Some \<lparr>new_content = c, new_is_done = b, new_posted_on = now\<rparr>)"
    by (simp add: TodoSchema_load_def assms mk)
  have nt: "new_todo bool_of now s json_input user =
             (Inr (ok (TodoSchema_dump
                    (fst (Todo_save s \<lparr>new_content = c, new_is_done = b, new_posted_on = now\<rparr> user))
                    user)),
              snd (Todo_save s \<lparr>new_content = c, new_is_done = b, new_posted_on = now\<rparr> user))"
    by (simp add: new_todo_def ld split_beta)
  from data dn mk ld nt show ?thesis
    by (simp add: getitem_def)
qed

theorem TodoSchema_load_gives_object_witness:
  "TodoSchema_validate json_bool [(''content'', JStr ''buy milk'')] =
     Inr \<lparr>d_content = Some ''buy milk'', d_is_done = Some False\<rparr> \<and>
   make_object \<lparr>d_content = Some ''buy milk'', d_is_done = Some False\<rparr> 99 =
     Inr (Some \<lparr>new_content = ''buy milk'', new_is_done = False, new_posted_on = 99\<rparr>) \<and>
   TodoSchema_load json_bool 99 [(''content'', JStr ''buy milk'')] =
     Inr (Some \<lparr>new_content = ''buy milk'', new_is_done = False, new_posted_on = 99\<rparr>)"
proof -
  have h: "TodoSchema_validate json_bool [(''content'', JStr ''buy milk'')] =
      Inr \<lparr>d_content = Some ''buy milk'', d_is_done = Some False\<rparr>"
    by (simp add: TodoSchema_validate_content)
  from TodoSchema_load_gives_object [OF h, of 99 example_store alice] h
  show ?thesis
    by auto
qed

end
